theory Spec2Isabelle
  imports Complex_Main
begin

section \<open>Python values and library functions used by wmpl.Formats.CAMS\<close>

text \<open>
  Exceptions are values of the type \<open>error\<close>; a function that may raise returns
  \<open>error + 'a\<close> with \<open>Inl\<close> for the exception. Python floats are modelled by the reals:
  rounding, infinities and NaN are outside the model. Text is a list of 8-bit characters.
\<close>

datatype error =
    IndexError
  | ValueError
  | ZeroDivisionError
  | AttributeError
  | TypeError
  | StopIteration
  | UnboundLocalError

text \<open>
  A station identifier after the coercion \<^verbatim>\<open>try: station_id = int(station_id) except: pass\<close>:
  an integer when the token is numeric, the token itself otherwise. As dictionary keys the two
  never compare equal.
\<close>

datatype station_id = IntId int | StrId string

definition bind :: "error + 'a \<Rightarrow> ('a \<Rightarrow> error + 'b) \<Rightarrow> error + 'b" where
  "bind r f = (case r of Inl e \<Rightarrow> Inl e | Inr x \<Rightarrow> f x)"

text \<open>
  ASCII whitespace as \<^verbatim>\<open>str.split()\<close>, \<^verbatim>\<open>str.strip()\<close>, \<^verbatim>\<open>int\<close> and \<^verbatim>\<open>float\<close> see it. Python also
  counts Unicode whitespace outside ASCII; the functions built on \<open>is_space\<close> are the builtins
  on ASCII text.
\<close>

definition is_space :: "char \<Rightarrow> bool" where
  "is_space c = (c \<in> set [CHR '' '', CHR 0x09, CHR 0x0A, CHR 0x0B, CHR 0x0C, CHR 0x0D,
                             CHR 0x1C, CHR 0x1D, CHR 0x1E, CHR 0x1F])"

definition is_digit :: "char \<Rightarrow> bool" where
  "is_digit c = (c \<in> set ''0123456789'')"

definition digit_val :: "char \<Rightarrow> nat" where
  "digit_val c = of_char c - 48"

text \<open>\<^verbatim>\<open>s.split()\<close>: the maximal runs of non-whitespace characters, in order.\<close>

fun split_ws_aux :: "string \<Rightarrow> string \<Rightarrow> string list" where
  "split_ws_aux cur [] = (if cur = [] then [] else [rev cur])"
| "split_ws_aux cur (c # cs) =
     (if is_space c
      then (if cur = [] then split_ws_aux [] cs else rev cur # split_ws_aux [] cs)
      else split_ws_aux (c # cur) cs)"

definition split_ws :: "string \<Rightarrow> string list" where
  "split_ws s = split_ws_aux [] s"

text \<open>\<^verbatim>\<open>s.split(sep)\<close> for a one-character separator: empty pieces are kept.\<close>

fun split_on_aux :: "char \<Rightarrow> string \<Rightarrow> string \<Rightarrow> string list" where
  "split_on_aux sep cur [] = [rev cur]"
| "split_on_aux sep cur (c # cs) =
     (if c = sep then rev cur # split_on_aux sep [] cs else split_on_aux sep (c # cur) cs)"

definition split_on :: "char \<Rightarrow> string \<Rightarrow> string list" where
  "split_on sep s = split_on_aux sep [] s"

definition strip :: "string \<Rightarrow> string" where
  "strip s = rev (dropWhile is_space (rev (dropWhile is_space s)))"

text \<open>\<^verbatim>\<open>sub in s\<close> for strings.\<close>

fun contains :: "string \<Rightarrow> string \<Rightarrow> bool" where
  "contains sub [] = (sub = [])"
| "contains sub (c # cs) = (take (length sub) (c # cs) = sub \<or> contains sub cs)"

text \<open>\<^verbatim>\<open>xs[i]\<close> for a non-negative index: out of range raises IndexError.\<close>

definition item :: "'a list \<Rightarrow> nat \<Rightarrow> error + 'a" where
  "item xs i = (if i < length xs then Inr (xs ! i) else Inl IndexError)"

text \<open>The slice \<^verbatim>\<open>s[a:b]\<close> for \<open>0 \<le> a \<le> b\<close>; a slice never raises.\<close>

definition slice :: "nat \<Rightarrow> nat \<Rightarrow> 'a list \<Rightarrow> 'a list" where
  "slice a b s = take (b - a) (drop a s)"

text \<open>
  \<^verbatim>\<open>int(s)\<close> on a string: surrounding whitespace is stripped, an optional sign is followed
  by one or more decimal digits. Anything else raises ValueError. (Digit grouping with
  underscores and non-ASCII digits are not modelled.)
\<close>

definition digits_nat :: "string \<Rightarrow> nat" where
  "digits_nat s = foldl (\<lambda>acc c. 10 * acc + digit_val c) 0 s"

definition signed :: "string \<Rightarrow> bool \<times> string" where
  "signed s = (case s of
       [] \<Rightarrow> (False, [])
     | c # cs \<Rightarrow> if c = CHR ''-'' then (True, cs) else if c = CHR ''+'' then (False, cs)
                else (False, c # cs))"

definition signed_digits :: "string \<Rightarrow> int option" where
  "signed_digits s =
     (let (neg, body) = signed s in
      if body \<noteq> [] \<and> list_all is_digit body
      then Some (if neg then - int (digits_nat body) else int (digits_nat body))
      else None)"

definition py_int :: "string \<Rightarrow> int option" where
  "py_int s = signed_digits (strip s)"

text \<open>
  \<^verbatim>\<open>float(s)\<close> on a string: surrounding whitespace is stripped; an optional sign, then
  digits with an optional fraction (\<^verbatim>\<open>12\<close>, \<^verbatim>\<open>12.\<close>, \<^verbatim>\<open>12.5\<close>, \<^verbatim>\<open>.5\<close>), then an optional
  exponent. The value is the real number the literal denotes. The tokens for infinity and
  NaN denote no real and are rejected by the model, like malformed tokens; digit grouping
  with underscores is not modelled, nor is the overflow of a literal too large for a float.
  So \<open>py_float\<close> is \<^verbatim>\<open>float\<close> on plain decimal literals of ordinary size.
\<close>

definition py_float :: "string \<Rightarrow> real option" where
  "py_float s =
     (let (neg, u) = signed (strip s);
          ip = takeWhile is_digit u;
          r1 = dropWhile is_digit u;
          has_dot = (r1 \<noteq> [] \<and> hd r1 = CHR ''.'');
          fp = (if has_dot then takeWhile is_digit (tl r1) else []);
          r2 = (if has_dot then dropWhile is_digit (tl r1) else r1);
          ex = (if r2 = [] then Some 0
                else if hd r2 = CHR ''e'' \<or> hd r2 = CHR ''E'' then signed_digits (tl r2)
                else None)
      in if ip = [] \<and> fp = [] then None
         else case ex of
           None \<Rightarrow> None
         | Some e \<Rightarrow>
             (let m = real (digits_nat ip) + real (digits_nat fp) / 10 ^ length fp;
                  v = (if 0 \<le> e then m * 10 ^ nat e else m / 10 ^ nat (- e))
              in Some (if neg then - v else v)))"

text \<open>\<^verbatim>\<open>np.radians\<close>.\<close>

definition radians :: "real \<Rightarrow> real" where
  "radians x = x * pi / 180"

text \<open>
  The station identifier of a token: \<^verbatim>\<open>station_id = tok.strip()\<close> followed by
  \<^verbatim>\<open>try: station_id = int(station_id) except: pass\<close>.
\<close>

definition coerce_id :: "string \<Rightarrow> station_id" where
  "coerce_id tok = (case py_int (strip tok) of Some n \<Rightarrow> IntId n | None \<Rightarrow> StrId (strip tok))"

section \<open>StationCatalogLoader: loadCameraTimeOffsets and loadCameraSites\<close>

text \<open>
  A text file is the list of its lines in order, as iterating over the file object yields
  them, each without its line terminator. \<^verbatim>\<open>next(f)\<close> on an exhausted file raises
  StopIteration, so skipping an \<open>n\<close>-line header fails on a file with fewer than \<open>n\<close> lines.
\<close>

type_synonym time_offsets = "station_id \<rightharpoonup> real"

type_synonym stations = "station_id \<rightharpoonup> (real \<times> real \<times> real)"

text \<open>
  \<^verbatim>\<open>loadCameraTimeOffsets\<close> (CAMS.py lines 123 to 150) is modelled over the builtins it calls,
  so that what is proved of it holds for whatever text these accept: \<open>split\<close> is
  \<^verbatim>\<open>str.split()\<close>; \<open>to_float t\<close> is \<^verbatim>\<open>float(t)\<close>, \<open>None\<close> when it raises ValueError, with values
  of any type \<open>'f\<close> (a float may be infinite); \<open>to_id\<close> is the station identifier of a
  token, \<^verbatim>\<open>strip()\<close> followed by \<^verbatim>\<open>int\<close> where it applies. The functions \<open>split_ws\<close>, \<open>py_float\<close>
  and \<open>coerce_id\<close> are these builtins on ASCII text and plain decimal literals.
\<close>

definition line_fields :: "(string \<Rightarrow> string list) \<Rightarrow> string \<Rightarrow> string list" where
  "line_fields split raw = split (filter (\<lambda>c. c \<noteq> CHR 0x0A) raw)"

text \<open>
  The body of the loop (lines 134 to 147): the line is split at whitespace, \<^verbatim>\<open>line[0]\<close> is
  the station, \<^verbatim>\<open>float(line[1])\<close> the offset. There is no test for a blank or a comment line.
\<close>

definition offsets_line ::
    "(string \<Rightarrow> string list) \<Rightarrow> (string \<Rightarrow> 'f option) \<Rightarrow> (string \<Rightarrow> 'k)
       \<Rightarrow> ('k \<rightharpoonup> 'f) \<Rightarrow> string \<Rightarrow> error + ('k \<rightharpoonup> 'f)" where
  "offsets_line split to_float to_id m raw =
     (let line = line_fields split raw in
      case item line 0 of
        Inl e \<Rightarrow> Inl e
      | Inr tok \<Rightarrow>
          (case item line 1 of
             Inl e \<Rightarrow> Inl e
           | Inr t \<Rightarrow>
               (case to_float t of
                  None \<Rightarrow> Inl ValueError
                | Some t_offset \<Rightarrow> Inr (m(to_id tok \<mapsto> t_offset)))))"

fun offsets_loop ::
    "(string \<Rightarrow> string list) \<Rightarrow> (string \<Rightarrow> 'f option) \<Rightarrow> (string \<Rightarrow> 'k)
       \<Rightarrow> ('k \<rightharpoonup> 'f) \<Rightarrow> string list \<Rightarrow> error + ('k \<rightharpoonup> 'f)" where
  "offsets_loop split to_float to_id m [] = Inr m"
| "offsets_loop split to_float to_id m (l # ls) =
     (case offsets_line split to_float to_id m l of
        Inl e \<Rightarrow> Inl e
      | Inr m' \<Rightarrow> offsets_loop split to_float to_id m' ls)"

text \<open>
  A body line that \<^verbatim>\<open>loadCameraTimeOffsets\<close> can read: at least two fields, the second one
  accepted by \<^verbatim>\<open>float\<close>.
\<close>

definition offsets_line_ok ::
    "(string \<Rightarrow> string list) \<Rightarrow> (string \<Rightarrow> 'f option) \<Rightarrow> string \<Rightarrow> bool" where
  "offsets_line_ok split to_float raw =
     (2 \<le> length (line_fields split raw) \<and> to_float (line_fields split raw ! 1) \<noteq> None)"

definition loadCameraTimeOffsets ::
    "(string \<Rightarrow> string list) \<Rightarrow> (string \<Rightarrow> 'f option) \<Rightarrow> (string \<Rightarrow> 'k)
       \<Rightarrow> string list \<Rightarrow> error + ('k \<rightharpoonup> 'f)" where
  "loadCameraTimeOffsets split to_float to_id f =
     (if length f < 2 then Inl StopIteration
      else offsets_loop split to_float to_id Map.empty (drop 2 f))"

text \<open>
  The body of the loop of \<^verbatim>\<open>loadCameraSites\<close> (lines 180 to 202). The test
  \<^verbatim>\<open>line[0] == '#'\<close> reads the raw line, which still holds its terminator, so it cannot fail
  on a blank line. \<^verbatim>\<open>station_id, lat, lon, height = line[:4]\<close> raises ValueError when the line
  has fewer than four fields.
\<close>

definition sites_line :: "stations \<Rightarrow> string \<Rightarrow> error + stations" where
  "sites_line st raw =
     (if raw \<noteq> [] \<and> hd raw = CHR ''#'' then Inr st
      else
        let line = filter (\<lambda>c. c \<noteq> CHR 0x0A) raw in
        if line = [] then Inr st
        else
          (case take 4 (split_ws line) of
             [tok, lat, lon, height] \<Rightarrow>
               (case py_float lat of
                  None \<Rightarrow> Inl ValueError
                | Some la \<Rightarrow>
                    (case py_float lon of
                       None \<Rightarrow> Inl ValueError
                     | Some lo \<Rightarrow>
                         (case py_float height of
                            None \<Rightarrow> Inl ValueError
                          | Some h \<Rightarrow>
                              Inr (st(coerce_id tok \<mapsto> (radians la, radians (- lo), h * 1000))))))
           | _ \<Rightarrow> Inl ValueError))"

fun sites_loop :: "stations \<Rightarrow> string list \<Rightarrow> error + stations" where
  "sites_loop st [] = Inr st"
| "sites_loop st (l # ls) =
     (case sites_line st l of Inl e \<Rightarrow> Inl e | Inr st' \<Rightarrow> sites_loop st' ls)"

definition loadCameraSites :: "string list \<Rightarrow> error + stations" where
  "loadCameraSites f =
     (if length f < 2 then Inl StopIteration else sites_loop Map.empty (drop 2 f))"

section \<open>MeteorObservation\<close>

text \<open>
  The class \<^verbatim>\<open>MeteorObservation\<close> (CAMS.py lines 20 to 81). The field \<open>arrays\<close> is not an
  attribute of the class: it records whether \<^verbatim>\<open>finish\<close> has replaced the Python lists
  \<^verbatim>\<open>time_data\<close>, \<^verbatim>\<open>azim_data\<close>, \<^verbatim>\<open>elev_data\<close>, \<^verbatim>\<open>ra_data\<close> and \<^verbatim>\<open>dec_data\<close> by numpy arrays, since a list
  and an array answer differently to \<^verbatim>\<open>append\<close> and to arithmetic with a number. Both read
  \<^verbatim>\<open>time_data\<close> first, which \<^verbatim>\<open>prepareObservations\<close> may also turn into an array.
  \<^verbatim>\<open>mag_data\<close> and \<^verbatim>\<open>abs_mag_data\<close> stay lists; an absent magnitude is \<open>None\<close>.
\<close>

record MeteorObservation =
  jdt_ref :: real
  station_id :: station_id
  latitude :: real
  longitude :: real
  height :: real
  fps :: real
  time_data :: "real list"
  azim_data :: "real list"
  elev_data :: "real list"
  ra_data :: "real list"
  dec_data :: "real list"
  mag_data :: "real option list"
  abs_mag_data :: "real option list"
  arrays :: bool

text \<open>\<^verbatim>\<open>__init__\<close> (lines 26 to 41).\<close>

definition MeteorObservation_init ::
    "real \<Rightarrow> station_id \<Rightarrow> real \<Rightarrow> real \<Rightarrow> real \<Rightarrow> real \<Rightarrow> MeteorObservation" where
  "MeteorObservation_init jdt sid lat lon h f =
     \<lparr> jdt_ref = jdt, station_id = sid, latitude = lat, longitude = lon, height = h, fps = f,
       time_data = [], azim_data = [], elev_data = [], ra_data = [], dec_data = [],
       mag_data = [], abs_mag_data = [], arrays = False \<rparr>"

text \<open>
  \<^verbatim>\<open>addPoint\<close> (lines 45 to 70). \<^verbatim>\<open>frame_n/self.fps\<close> is a division of Python floats and raises
  ZeroDivisionError for a zero rate; \<^verbatim>\<open>self.time_data.append\<close> raises AttributeError once the
  lists are arrays. Both happen before anything is stored, so a failed call leaves the
  object as it was.
\<close>

definition addPoint ::
    "MeteorObservation \<Rightarrow> real \<Rightarrow> real \<Rightarrow> real \<Rightarrow> real \<Rightarrow> real \<Rightarrow> real option
       \<Rightarrow> error + MeteorObservation" where
  "addPoint m frame_n azim elev ra dec mag =
     (if fps m = 0 then Inl ZeroDivisionError
      else if arrays m then Inl AttributeError
      else Inr (m\<lparr> time_data := time_data m @ [frame_n / fps m],
                   azim_data := azim_data m @ [radians azim],
                   elev_data := elev_data m @ [radians elev],
                   ra_data := ra_data m @ [radians ra],
                   dec_data := dec_data m @ [radians dec],
                   mag_data := mag_data m @ [mag] \<rparr>))"

text \<open>\<^verbatim>\<open>finish\<close> (lines 74 to 81): the five lists become arrays with the same elements.\<close>

definition finish :: "MeteorObservation \<Rightarrow> MeteorObservation" where
  "finish m = m\<lparr> arrays := True \<rparr>"

text \<open>
  A method call on an observation, and the object after the call, whether the call returned
  or raised.
\<close>

datatype call = AddPoint real real real real real "real option" | Finish

fun after_call :: "MeteorObservation \<Rightarrow> call \<Rightarrow> MeteorObservation" where
  "after_call m Finish = finish m"
| "after_call m (AddPoint frame_n azim elev ra dec mag) =
     (case addPoint m frame_n azim elev ra dec mag of Inl e \<Rightarrow> m | Inr m' \<Rightarrow> m')"

text \<open>The frame numbers passed to \<^verbatim>\<open>addPoint\<close> in a sequence of calls, in order.\<close>

fun frames :: "call list \<Rightarrow> real list" where
  "frames [] = []"
| "frames (Finish # cs) = frames cs"
| "frames (AddPoint frame_n azim elev ra dec mag # cs) = frame_n # frames cs"

text \<open>All per-point sequences of an observation have the same length.\<close>

definition equal_lengths :: "MeteorObservation \<Rightarrow> bool" where
  "equal_lengths m =
     (length (azim_data m) = length (time_data m) \<and> length (elev_data m) = length (time_data m)
      \<and> length (ra_data m) = length (time_data m) \<and> length (dec_data m) = length (time_data m)
      \<and> length (mag_data m) = length (time_data m))"

section \<open>DetectionRecordParser: loadFTPDetectInfo\<close>

text \<open>
  \<^verbatim>\<open>date2JD\<close> belongs to \<^verbatim>\<open>wmpl.Utils.TrajConversions\<close>, which is not among the sources: the
  parser takes it as a parameter, a function of year, month, day, hour, minute, second and
  millisecond that returns a Julian date or raises.
\<close>

type_synonym date2JD = "int \<Rightarrow> int \<Rightarrow> int \<Rightarrow> int \<Rightarrow> int \<Rightarrow> int \<Rightarrow> int \<Rightarrow> error + real"

text \<open>
  The local variables of the loop of \<^verbatim>\<open>loadFTPDetectInfo\<close> (lines 231 to 244).
  \<open>jdt_ref_var\<close> is the local \<^verbatim>\<open>jdt_ref\<close>, unbound until the first bin line is read.
  An observation is appended to \<^verbatim>\<open>meteor_list\<close> by reference; no line adds a point to an
  observation that is already in the list (\<^verbatim>\<open>addPoint\<close> raises on a finished one before it
  stores anything), so the list can hold the values.
\<close>

record parser_state =
  meteor_list :: "MeteorObservation list"
  current_meteor :: "MeteorObservation option"
  bin_name :: bool
  cal_name :: bool
  meteor_header :: bool
  jdt_ref_var :: "real option"

definition initial_state :: parser_state where
  "initial_state =
     \<lparr> meteor_list = [], current_meteor = None, bin_name = False, cal_name = False,
       meteor_header = False, jdt_ref_var = None \<rparr>"

text \<open>How the body of the loop ends for one line: \<^verbatim>\<open>continue\<close> (or falling through), or \<^verbatim>\<open>break\<close>.\<close>

datatype 'a step = Continue 'a | Break 'a

text \<open>\<^verbatim>\<open>line.replace('\n', '').replace('\r', '')\<close> (line 248).\<close>

definition clean_line :: "string \<Rightarrow> string" where
  "clean_line raw = filter (\<lambda>c. c \<noteq> CHR 0x0A \<and> c \<noteq> CHR 0x0D) raw"

text \<open>\<^verbatim>\<open>map(int, [...])\<close> unpacked into names: the first token that is no integer raises.\<close>

fun ints_of :: "string list \<Rightarrow> error + int list" where
  "ints_of [] = Inr []"
| "ints_of (s # ss) =
     (case py_int s of
        None \<Rightarrow> Inl ValueError
      | Some n \<Rightarrow> (case ints_of ss of Inl e \<Rightarrow> Inl e | Inr ns \<Rightarrow> Inr (n # ns)))"

text \<open>
  The bin line (lines 276 to 300): the reference Julian date computed from the name of the
  FF file. Six segments mean the old layout, shifted by one segment.
\<close>

definition bin_line_jd :: "date2JD \<Rightarrow> string \<Rightarrow> error + real" where
  "bin_line_jd date2JD line =
     (let toks = split_on CHR ''_'' line;
          sc = (if length toks = 6 then 1 else 0)
      in bind (item toks (1 + sc)) (\<lambda>ff_date.
         bind (item toks (2 + sc)) (\<lambda>ff_time.
         bind (item toks (3 + sc)) (\<lambda>milliseconds.
         bind (ints_of [slice 0 4 ff_date, slice 4 6 ff_date, slice 6 8 ff_date,
                        slice 0 2 ff_time, slice 2 4 ff_time, slice 4 6 ff_time,
                        milliseconds])
           (\<lambda>ns. case ns of
                    [year, month, day, hour, minute, seconds, ms] \<Rightarrow>
                      date2JD year month day hour minute seconds ms
                  | _ \<Rightarrow> Inl ValueError)))))"

text \<open>
  The time offset (lines 331 to 341). The message of the first branch formats the station
  with \<^verbatim>\<open>{:s}\<close>, which Python accepts for a string and refuses for an integer with
  ValueError: \<^verbatim>\<open>'{:s}'.format(1)\<close> raises "Unknown format code 's' for object of type 'int'".
  The message is built before \<^verbatim>\<open>jdt_ref\<close> is changed.
\<close>

definition apply_time_offset ::
    "time_offsets option \<Rightarrow> station_id \<Rightarrow> real option \<Rightarrow> error + real option" where
  "apply_time_offset time_offsets sid jv =
     (case time_offsets of
        None \<Rightarrow> Inr jv
      | Some offs \<Rightarrow>
          (case offs sid of
             None \<Rightarrow> Inr jv
           | Some off \<Rightarrow>
               (case sid of
                  IntId n \<Rightarrow> Inl ValueError
                | StrId s \<Rightarrow>
                    (case jv of
                       None \<Rightarrow> Inl UnboundLocalError
                     | Some jdt \<Rightarrow> Inr (Some (jdt + off / 86400))))))"

text \<open>
  The meteor header (lines 315 to 358): station and frame rate, the time offset, the lookup
  of the station in the catalog, which ends the loop when it fails, and the new observation.
\<close>

definition header_line ::
    "stations \<Rightarrow> time_offsets option \<Rightarrow> parser_state \<Rightarrow> string \<Rightarrow> error + parser_state step" where
  "header_line stations time_offsets st line =
     (let toks = split_ws line;
          st0 = st\<lparr> meteor_header := False \<rparr>
      in bind (item toks 0) (\<lambda>tok.
         bind (item toks 3) (\<lambda>fps_tok.
           case py_float fps_tok of
             None \<Rightarrow> Inl ValueError
           | Some fps_val \<Rightarrow>
               (let sid = coerce_id tok in
                bind (apply_time_offset time_offsets sid (jdt_ref_var st)) (\<lambda>jv.
                  case stations sid of
                    None \<Rightarrow> Inr (Break (st0\<lparr> jdt_ref_var := jv \<rparr>))
                  | Some (lat, lon, h) \<Rightarrow>
                      (case jv of
                         None \<Rightarrow> Inl UnboundLocalError
                       | Some jdt \<Rightarrow>
                           Inr (Continue (st0\<lparr> jdt_ref_var := jv,
                             current_meteor :=
                               Some (MeteorObservation_init jdt sid lat lon h fps_val) \<rparr>))))))))"

text \<open>\<^verbatim>\<open>float(line[i])\<close>.\<close>

definition float_item :: "string list \<Rightarrow> nat \<Rightarrow> error + real" where
  "float_item toks i =
     bind (item toks i) (\<lambda>t. case py_float t of None \<Rightarrow> Inl ValueError | Some x \<Rightarrow> Inr x)"

text \<open>
  The visual magnitude of a point line (lines 373 to 385): the guard is \<^verbatim>\<open>len(line) > 7\<close>,
  the field read is \<^verbatim>\<open>line[8]\<close>.
\<close>

definition read_mag :: "string list \<Rightarrow> error + real option" where
  "read_mag toks =
     (if length toks > 7
      then bind (item toks 8) (\<lambda>mag.
             if mag = ''inf'' then Inr None
             else (case py_float mag of None \<Rightarrow> Inl ValueError | Some x \<Rightarrow> Inr (Some x)))
      else Inr None)"

text \<open>A point line (lines 364 to 389).\<close>

definition point_line :: "MeteorObservation \<Rightarrow> string \<Rightarrow> error + MeteorObservation" where
  "point_line m line =
     (let toks = split_ws (filter (\<lambda>c. c \<noteq> CHR 0x0A) line)
      in bind (float_item toks 0) (\<lambda>frame_n.
         bind (float_item toks 3) (\<lambda>ra.
         bind (float_item toks 4) (\<lambda>dec.
         bind (float_item toks 5) (\<lambda>azim.
         bind (float_item toks 6) (\<lambda>elev.
         bind (read_mag toks) (\<lambda>mag.
           addPoint m frame_n azim elev ra dec mag)))))))"

text \<open>
  The body of the loop for one line (lines 248 to 389). Every branch for a flagged line ends
  with \<^verbatim>\<open>continue\<close>, \<^verbatim>\<open>break\<close> or an exception, so the last test, for a point line, is reached
  with the three flags false and only asks for an observation in progress. On a separator
  the observation in progress is finished and appended, and \<^verbatim>\<open>current_meteor\<close> keeps it.
\<close>

definition parse_line ::
    "date2JD \<Rightarrow> stations \<Rightarrow> time_offsets option \<Rightarrow> parser_state \<Rightarrow> string
       \<Rightarrow> error + parser_state step" where
  "parse_line date2JD stations time_offsets st raw =
     (let line = clean_line raw in
      if line = [] then Inr (Continue st)
      else if contains ''-----'' line then
        Inr (Continue
          (case current_meteor st of
             None \<Rightarrow> st\<lparr> bin_name := True \<rparr>
           | Some m \<Rightarrow> st\<lparr> bin_name := True, current_meteor := Some (finish m),
                            meteor_list := meteor_list st @ [finish m] \<rparr>))
      else if bin_name st then
        bind (bin_line_jd date2JD line) (\<lambda>jd.
          Inr (Continue (st\<lparr> bin_name := False, cal_name := True, jdt_ref_var := Some jd \<rparr>)))
      else if cal_name st then
        Inr (Continue (st\<lparr> cal_name := False, meteor_header := True \<rparr>))
      else if meteor_header st then header_line stations time_offsets st line
      else
        (case current_meteor st of
           None \<Rightarrow> Inr (Continue st)
         | Some m \<Rightarrow>
             bind (point_line m line) (\<lambda>m'. Inr (Continue (st\<lparr> current_meteor := Some m' \<rparr>)))))"

fun parse_lines ::
    "date2JD \<Rightarrow> stations \<Rightarrow> time_offsets option \<Rightarrow> parser_state \<Rightarrow> string list
       \<Rightarrow> error + parser_state" where
  "parse_lines date2JD stations time_offsets st [] = Inr st"
| "parse_lines date2JD stations time_offsets st (l # ls) =
     (case parse_line date2JD stations time_offsets st l of
        Inl e \<Rightarrow> Inl e
      | Inr (Break st') \<Rightarrow> Inr st'
      | Inr (Continue st') \<Rightarrow> parse_lines date2JD stations time_offsets st' ls)"

text \<open>
  After the loop (lines 392 to 398) the observation \<^verbatim>\<open>current_meteor\<close> refers to, if any, is
  finished and appended, whatever ended the loop.
\<close>

definition after_loop :: "parser_state \<Rightarrow> MeteorObservation list" where
  "after_loop st =
     (case current_meteor st of
        None \<Rightarrow> meteor_list st
      | Some m \<Rightarrow> meteor_list st @ [finish m])"

definition loadFTPDetectInfo ::
    "date2JD \<Rightarrow> string list \<Rightarrow> stations \<Rightarrow> time_offsets option
       \<Rightarrow> error + MeteorObservation list" where
  "loadFTPDetectInfo date2JD f stations time_offsets =
     (if length f < 11 then Inl StopIteration
      else case parse_lines date2JD stations time_offsets initial_state (drop 11 f) of
             Inl e \<Rightarrow> Inl e
           | Inr st \<Rightarrow> Inr (after_loop st))"

section \<open>ObservationNormalizer: prepareObservations\<close>

text \<open>
  \<^verbatim>\<open>equatorialCoordPrecession_vect\<close>, \<^verbatim>\<open>raDec2AltAz_vect\<close> and the constant \<^verbatim>\<open>J2000_JD.days\<close> belong
  to \<^verbatim>\<open>wmpl.Utils.TrajConversions\<close>, which is not among the sources: they are parameters, the
  two transforms as functions that return. The first takes the catalog epoch, a vector of
  epochs and the right ascensions and declinations, and returns the precessed pair; the
  second takes right ascensions, declinations, the epoch, latitude and longitude, and returns
  the pair that the code stores as azimuths and elevations.
\<close>

type_synonym precession = "real \<Rightarrow> real list \<Rightarrow> real list \<Rightarrow> real list \<Rightarrow> real list \<times> real list"

type_synonym altaz = "real list \<Rightarrow> real list \<Rightarrow> real \<Rightarrow> real \<Rightarrow> real \<Rightarrow> real list \<times> real list"

text \<open>
  The reference observation (lines 422 to 431). \<^verbatim>\<open>time_data[0]\<close> raises IndexError on an
  observation without points; \<^verbatim>\<open>time_data -= tsec_delta\<close> shifts every element of an array
  and raises TypeError on a list of Python floats, as \<^verbatim>\<open>addPoint\<close> builds it from the numbers
  the parser passes, that is on an observation that was not finished.
\<close>

definition normalize_ref :: "MeteorObservation \<Rightarrow> error + MeteorObservation" where
  "normalize_ref m =
     (case time_data m of
        [] \<Rightarrow> Inl IndexError
      | tsec_delta # ts \<Rightarrow>
          if \<not> arrays m then Inl TypeError
          else Inr (m\<lparr> jdt_ref := jdt_ref m + tsec_delta / 86400,
                       time_data := map (\<lambda>t. t - tsec_delta) (time_data m) \<rparr>))"

text \<open>
  Every other observation (lines 442 to 447), given the epoch of the normalized reference.
  This is reached after line 431 only, so the reference's \<^verbatim>\<open>time_data\<close> is an array, its first
  element a numpy number, and so are \<^verbatim>\<open>jdt_delta\<close>, the reference's epoch, \<^verbatim>\<open>jdt_diff\<close> and
  \<^verbatim>\<open>tsec_diff\<close>. \<^verbatim>\<open>time_data += tsec_diff\<close> with a numpy number shifts an array in place and replaces
  a list by the shifted array: it does not raise, finished or not.
\<close>

definition normalize_other :: "real \<Rightarrow> MeteorObservation \<Rightarrow> MeteorObservation" where
  "normalize_other ref_jdt m =
     (let jdt_diff = jdt_ref m - ref_jdt;
          tsec_diff = jdt_diff * 86400
      in m\<lparr> jdt_ref := jdt_ref m - jdt_diff,
            time_data := map (\<lambda>t. t + tsec_diff) (time_data m),
            arrays := True \<rparr>)"

text \<open>Precession to the epoch of date and the new horizontal coordinates (lines 461 to 472).\<close>

definition to_epoch_of_date ::
    "precession \<Rightarrow> altaz \<Rightarrow> real \<Rightarrow> real \<Rightarrow> MeteorObservation \<Rightarrow> MeteorObservation" where
  "to_epoch_of_date prec horiz j2000 jdt m =
     (let jdt_ref_vect = replicate (length (ra_data m)) jdt;
          radec = prec j2000 jdt_ref_vect (ra_data m) (dec_data m);
          azel = horiz (fst radec) (snd radec) jdt (latitude m) (longitude m)
      in m\<lparr> ra_data := fst radec, dec_data := snd radec,
            azim_data := fst azel, elev_data := snd azel \<rparr>)"

text \<open>
  \<^verbatim>\<open>prepareObservations\<close> (lines 418 to 483). The result \<open>None\<close> stands for the pair
  \<^verbatim>\<open>(None, None)\<close> returned for an empty list. The argument \<open>observations\<close> is the
  parameter \<^verbatim>\<open>meteor_list\<close>; its elements are taken to be distinct objects, each changed in
  place by the code and returned as a new value by the model. An object listed twice is
  shifted once by the code, its second shift being by a zero difference, so its epoch and
  times are those of the model; the code precesses it twice, the model once, and nothing is
  proved here of the coordinates.
\<close>

definition prepareObservations ::
    "precession \<Rightarrow> altaz \<Rightarrow> real \<Rightarrow> MeteorObservation list
       \<Rightarrow> error + (real \<times> MeteorObservation list) option" where
  "prepareObservations prec horiz j2000 observations =
     (case observations of
        [] \<Rightarrow> Inr None
      | ref # rest \<Rightarrow>
          (case normalize_ref ref of
             Inl e \<Rightarrow> Inl e
           | Inr ref' \<Rightarrow>
               Inr (Some (jdt_ref ref',
                 map (to_epoch_of_date prec horiz j2000 (jdt_ref ref'))
                   (ref' # map (normalize_other (jdt_ref ref')) rest)))))"


section \<open>SolverAdapter: solveTrajectoryCAMS and solveTrajectoryPickle\<close>

text \<open>
  The solvers \<^verbatim>\<open>Trajectory\<close> and \<^verbatim>\<open>GuralTrajectory\<close> are external. In \<^verbatim>\<open>solveTrajectoryCAMS\<close>
  (lines 487 to 539) the parameter \<open>run_original\<close> stands for constructing \<^verbatim>\<open>Trajectory\<close>,
  infilling every observation and \<^verbatim>\<open>traj.run()\<close> (lines 505, 517 to 525, 537), \<open>run_gural\<close>
  for the same with \<^verbatim>\<open>GuralTrajectory\<close>; each returns the solver object or raises. The result
  \<open>None\<close> is Python's \<^verbatim>\<open>None\<close>. Printing is not modelled.
\<close>

definition solveTrajectoryCAMS ::
    "precession \<Rightarrow> altaz \<Rightarrow> real
       \<Rightarrow> (real \<Rightarrow> MeteorObservation list \<Rightarrow> error + 't)
       \<Rightarrow> (nat \<Rightarrow> real \<Rightarrow> MeteorObservation list \<Rightarrow> error + 't)
       \<Rightarrow> MeteorObservation list \<Rightarrow> string \<Rightarrow> error + 't option" where
  "solveTrajectoryCAMS prec horiz j2000 run_original run_gural observations solver =
     (case prepareObservations prec horiz j2000 observations of
        Inl e \<Rightarrow> Inl e
      | Inr None \<Rightarrow> Inr None
      | Inr (Some (jdt, ms)) \<Rightarrow>
          if solver = ''original'' then
            (case run_original jdt ms of Inl e \<Rightarrow> Inl e | Inr traj \<Rightarrow> Inr (Some traj))
          else if solver = ''gural'' then
            (case run_gural (length ms) jdt ms of Inl e \<Rightarrow> Inl e | Inr traj \<Rightarrow> Inr (Some traj))
          else Inr None)"

text \<open>
  \<^verbatim>\<open>solveTrajectoryPickle\<close> (Pickle.py lines 47 to 126). \<open>loadPickle\<close> is the outcome of
  loading the pickle; \<open>init_original\<close> stands for lines 57 to 86 (a new \<^verbatim>\<open>Trajectory\<close>, infilled),
  \<open>init_gural\<close> for lines 95 to 102, \<open>savePlots\<close> for lines 113 to 116 and \<open>run\<close> for
  \<^verbatim>\<open>traj.run()\<close>. The local \<^verbatim>\<open>traj\<close> is bound in the first two branches only; the third prints
  and goes on, and reading an unbound local raises UnboundLocalError.
\<close>

definition solveTrajectoryPickle ::
    "error + 'p \<Rightarrow> ('p \<Rightarrow> error + 't) \<Rightarrow> ('p \<Rightarrow> error + 't) \<Rightarrow> ('p \<Rightarrow> error + unit)
       \<Rightarrow> ('t \<Rightarrow> error + 't) \<Rightarrow> bool \<Rightarrow> string \<Rightarrow> error + 't" where
  "solveTrajectoryPickle loadPickle init_original init_gural savePlots run only_plot solver =
     bind loadPickle (\<lambda>traj_p.
     bind (if solver = ''original'' then
             (case init_original traj_p of Inl e \<Rightarrow> Inl e | Inr t \<Rightarrow> Inr (Some t))
           else if solver = ''gural'' then
             (case init_gural traj_p of Inl e \<Rightarrow> Inl e | Inr t \<Rightarrow> Inr (Some t))
           else Inr None) (\<lambda>traj.
       if only_plot then
         bind (savePlots traj_p) (\<lambda>u.
           case traj of None \<Rightarrow> Inl UnboundLocalError | Some t \<Rightarrow> Inr t)
       else
         (case traj of None \<Rightarrow> Inl UnboundLocalError | Some t \<Rightarrow> run t)))"

section \<open>Values for worked examples\<close>

text \<open>
  A stand-in for \<^verbatim>\<open>date2JD\<close> in worked examples: it never raises and tells any two instants
  in one month apart. It is not the Julian date.
\<close>

definition example_date2JD :: date2JD where
  "example_date2JD year month day hour minute seconds ms =
     Inr (real_of_int (((((year * 12 + month) * 31 + day) * 24 + hour) * 60 + minute) * 60
            + seconds) + real_of_int ms / 1000)"





section \<open>Verified properties\<close>

subsection \<open>Evaluation of the library functions on literals\<close>

lemmas py_eval =
  split_ws_def split_on_def is_space_def is_digit_def digits_nat_def digit_val_def
  py_float_def py_int_def signed_def signed_digits_def strip_def coerce_id_def item_def
  slice_def line_fields_def

subsection \<open>The site catalog\<close>

text \<open>
  Claim C7. For the site-file record \<^verbatim>\<open>1 43.10 -81.30 200.0\<close> (after any two header lines),
  \<^verbatim>\<open>loadCameraSites\<close> stores under the integer key 1 the latitude radians(43.10), the
  longitude radians(81.30), the sign of the file's value inverted, and the height 200000
  metres, and nothing else.
\<close>

theorem loadCameraSites_concrete_record:
  "loadCameraSites [h1, h2, ''1 43.10 -81.30 200.0'']
     = Inr [IntId 1 \<mapsto> (radians (431 / 10), radians (813 / 10), 200000)]"
  by (simp add: loadCameraSites_def sites_line_def py_eval)

subsection \<open>The time-offset file\<close>

lemma offsets_line_Inr_iff:
  "(\<exists>m'. offsets_line split to_float to_id m l = Inr m') = offsets_line_ok split to_float l"
  by (auto simp: offsets_line_def offsets_line_ok_def item_def Let_def split: option.splits)

lemma offsets_line_short:
  "length (line_fields split l) < 2 \<Longrightarrow> offsets_line split to_float to_id m l = Inl IndexError"
  by (auto simp: offsets_line_def item_def Let_def)

lemma offsets_line_not_float:
  "2 \<le> length (line_fields split l) \<Longrightarrow> to_float (line_fields split l ! 1) = None \<Longrightarrow>
   offsets_line split to_float to_id m l = Inl ValueError"
  by (auto simp: offsets_line_def item_def Let_def)

lemma offsets_loop_Inr_iff:
  "(\<exists>m'. offsets_loop split to_float to_id m ls = Inr m')
     = list_all (offsets_line_ok split to_float) ls"
proof (induction ls arbitrary: m)
  case Nil
  show ?case by simp
next
  case (Cons l ls)
  show ?case
  proof (cases "offsets_line split to_float to_id m l")
    case (Inl e)
    with offsets_line_Inr_iff [of split to_float to_id m l] show ?thesis by simp
  next
    case (Inr m1)
    with offsets_line_Inr_iff [of split to_float to_id m l] Cons.IH [of m1]
    show ?thesis by simp
  qed
qed

lemma offsets_loop_append:
  "offsets_loop split to_float to_id m (xs @ ys) =
     (case offsets_loop split to_float to_id m xs of
        Inl e \<Rightarrow> Inl e
      | Inr m' \<Rightarrow> offsets_loop split to_float to_id m' ys)"
  by (induction xs arbitrary: m) (auto split: sum.splits)

lemma offsets_loop_first_bad_line:
  assumes good: "list_all (offsets_line_ok split to_float) good"
      and bad: "\<And>m. offsets_line split to_float to_id m l = Inl e"
  shows "offsets_loop split to_float to_id m0 (good @ l # rest) = Inl e"
proof -
  from good obtain m' where "offsets_loop split to_float to_id m0 good = Inr m'"
    using offsets_loop_Inr_iff [of split to_float to_id m0 good] by auto
  then show ?thesis by (simp add: offsets_loop_append bad)
qed

text \<open>
  Claim C10, as amended. Whatever \<^verbatim>\<open>str.split()\<close> and \<^verbatim>\<open>float\<close> accept, \<^verbatim>\<open>loadCameraTimeOffsets\<close>
  skips no blank and no comment line after the two header lines, where \<^verbatim>\<open>loadCameraSites\<close>
  skips both: it returns a mapping exactly when the file has its two header lines and every
  body line has at least two fields, the second one accepted by \<^verbatim>\<open>float\<close>. A file with fewer
  than two lines fails with StopIteration. Otherwise the first body line that is not of this
  form decides the failure: IndexError when it has fewer than two fields (a blank line, a
  one-token comment line), ValueError when it has two or more and \<^verbatim>\<open>float\<close> rejects the
  second.
\<close>

theorem loadCameraTimeOffsets_body_lines:
  "((\<exists>m. loadCameraTimeOffsets split to_float to_id f = Inr m)
      = (2 \<le> length f \<and> list_all (offsets_line_ok split to_float) (drop 2 f)))
   \<and> (length f < 2 \<longrightarrow> loadCameraTimeOffsets split to_float to_id f = Inl StopIteration)
   \<and> (drop 2 f = good @ l # rest \<and> list_all (offsets_line_ok split to_float) good
        \<and> length (line_fields split l) < 2
      \<longrightarrow> loadCameraTimeOffsets split to_float to_id f = Inl IndexError)
   \<and> (drop 2 f = good @ l # rest \<and> list_all (offsets_line_ok split to_float) good
        \<and> 2 \<le> length (line_fields split l) \<and> to_float (line_fields split l ! 1) = None
      \<longrightarrow> loadCameraTimeOffsets split to_float to_id f = Inl ValueError)
   \<and> sites_line st [] = Inr st \<and> sites_line st (CHR ''#'' # cs) = Inr st"
proof (intro conjI impI)
  show "(\<exists>m. loadCameraTimeOffsets split to_float to_id f = Inr m)
      = (2 \<le> length f \<and> list_all (offsets_line_ok split to_float) (drop 2 f))"
    using offsets_loop_Inr_iff [of split to_float to_id Map.empty "drop 2 f"]
    by (auto simp: loadCameraTimeOffsets_def)
next
  assume "length f < 2"
  then show "loadCameraTimeOffsets split to_float to_id f = Inl StopIteration"
    by (simp add: loadCameraTimeOffsets_def)
next
  assume h: "drop 2 f = good @ l # rest \<and> list_all (offsets_line_ok split to_float) good
        \<and> length (line_fields split l) < 2"
  then have len: "\<not> length f < 2" by (cases "length f < 2") auto
  from h have "offsets_loop split to_float to_id Map.empty (good @ l # rest) = Inl IndexError"
    by (intro offsets_loop_first_bad_line offsets_line_short) simp_all
  with h len show "loadCameraTimeOffsets split to_float to_id f = Inl IndexError"
    by (simp add: loadCameraTimeOffsets_def)
next
  assume h: "drop 2 f = good @ l # rest \<and> list_all (offsets_line_ok split to_float) good
        \<and> 2 \<le> length (line_fields split l) \<and> to_float (line_fields split l ! 1) = None"
  then have len: "\<not> length f < 2" by (cases "length f < 2") auto
  from h have "offsets_loop split to_float to_id Map.empty (good @ l # rest) = Inl ValueError"
    by (intro offsets_loop_first_bad_line offsets_line_not_float) simp_all
  with h len show "loadCameraTimeOffsets split to_float to_id f = Inl ValueError"
    by (simp add: loadCameraTimeOffsets_def)
next
  show "sites_line st [] = Inr st" by (simp add: sites_line_def)
next
  show "sites_line st (CHR ''#'' # cs) = Inr st" by (simp add: sites_line_def)
qed

text \<open>
  The theorem at five concrete files read with the builtins on ASCII text: a well-formed
  one, one with a blank line, one with a one-token comment line, one with a second field
  that is no number, one with a single line.
\<close>

theorem loadCameraTimeOffsets_body_lines_witness:
  "(\<exists>m. loadCameraTimeOffsets split_ws py_float coerce_id [''h'', ''h'', ''1 0.5'', ''ab 2'']
          = Inr m)
   \<and> loadCameraTimeOffsets split_ws py_float coerce_id [''h'', ''h'', ''1 0.5'', '''', ''2 1'']
       = Inl IndexError
   \<and> loadCameraTimeOffsets split_ws py_float coerce_id [''h'', ''h'', ''1 0.5'', ''#x'']
       = Inl IndexError
   \<and> loadCameraTimeOffsets split_ws py_float coerce_id
         [''h'', ''h'', ''1 0.5'', ''2 abc'', ''3 1'']
       = Inl ValueError
   \<and> loadCameraTimeOffsets split_ws py_float coerce_id [''h''] = Inl StopIteration"
proof -
  have ok: "list_all (offsets_line_ok split_ws py_float) [''1 0.5'', ''ab 2'']"
           "list_all (offsets_line_ok split_ws py_float) [''1 0.5'']"
    by (simp_all add: offsets_line_ok_def py_eval)
  have a: "\<exists>m. loadCameraTimeOffsets split_ws py_float coerce_id
                 [''h'', ''h'', ''1 0.5'', ''ab 2''] = Inr m"
    using loadCameraTimeOffsets_body_lines
      [of split_ws py_float coerce_id "[''h'', ''h'', ''1 0.5'', ''ab 2'']"] ok
    by simp
  have b: "loadCameraTimeOffsets split_ws py_float coerce_id
             [''h'', ''h'', ''1 0.5'', '''', ''2 1''] = Inl IndexError"
    using loadCameraTimeOffsets_body_lines
      [of split_ws py_float coerce_id "[''h'', ''h'', ''1 0.5'', '''', ''2 1'']"
          "[''1 0.5'']" "''''" "[''2 1'']"] ok
    by (simp add: py_eval)
  have c: "loadCameraTimeOffsets split_ws py_float coerce_id
             [''h'', ''h'', ''1 0.5'', ''#x''] = Inl IndexError"
    using loadCameraTimeOffsets_body_lines
      [of split_ws py_float coerce_id "[''h'', ''h'', ''1 0.5'', ''#x'']"
          "[''1 0.5'']" "''#x''" "[]"] ok
    by (simp add: py_eval)
  have d: "loadCameraTimeOffsets split_ws py_float coerce_id
             [''h'', ''h'', ''1 0.5'', ''2 abc'', ''3 1''] = Inl ValueError"
    using loadCameraTimeOffsets_body_lines
      [of split_ws py_float coerce_id "[''h'', ''h'', ''1 0.5'', ''2 abc'', ''3 1'']"
          "[''1 0.5'']" "''2 abc''" "[''3 1'']"] ok
    by (simp add: py_eval)
  have e: "loadCameraTimeOffsets split_ws py_float coerce_id [''h''] = Inl StopIteration"
    using loadCameraTimeOffsets_body_lines [of split_ws py_float coerce_id "[''h'']"]
    by simp
  from a b c d e show ?thesis by simp
qed

text \<open>
  Claim C10 as stated fails: a blank line after a body line whose second field is not a
  number is never reached, and the load fails with ValueError, not with an indexing error.
\<close>

theorem loadCameraTimeOffsets_ValueError_before_blank:
  "'''' \<in> set (drop 2 [''h'', ''h'', ''1 abc'', ''''])
   \<and> length (line_fields split_ws '''') < 2
   \<and> loadCameraTimeOffsets split_ws py_float coerce_id [''h'', ''h'', ''1 abc'', '''']
       = Inl ValueError
   \<and> loadCameraTimeOffsets split_ws py_float coerce_id [''h'', ''h'', ''1 abc'', '''']
       \<noteq> Inl IndexError"
  by (simp add: loadCameraTimeOffsets_def offsets_line_def py_eval)

subsection \<open>The invariant of MeteorObservation\<close>

lemma after_call_equal_lengths: "equal_lengths m \<Longrightarrow> equal_lengths (after_call m c)"
  by (cases c) (auto simp: equal_lengths_def addPoint_def finish_def)

lemma foldl_after_call_equal_lengths:
  "equal_lengths m \<Longrightarrow> equal_lengths (foldl after_call m cs)"
  by (induction cs arbitrary: m) (simp_all add: after_call_equal_lengths)

lemma after_call_fps: "fps (after_call m c) = fps m"
  by (cases c) (auto simp: addPoint_def finish_def)

lemma after_call_time_data:
  "time_data (after_call m c) = time_data m
   \<or> (\<exists>x. frames [c] = [x] \<and> time_data (after_call m c) = time_data m @ [x / fps m])"
  by (cases c) (auto simp: addPoint_def finish_def)

lemma frames_Cons: "frames (c # cs) = frames [c] @ frames cs"
  by (cases c) auto

lemma foldl_after_call_sorted:
  "0 < fps m \<Longrightarrow> sorted (frames cs) \<Longrightarrow> sorted (time_data m)
   \<Longrightarrow> (\<forall>t \<in> set (time_data m). \<forall>x \<in> set (frames cs). t \<le> x / fps m)
   \<Longrightarrow> sorted (time_data (foldl after_call m cs))"
proof (induction cs arbitrary: m)
  case Nil
  then show ?case by simp
next
  case (Cons c cs)
  let ?m = "after_call m c"
  have fr: "frames (c # cs) = frames [c] @ frames cs" by (rule frames_Cons)
  have f: "0 < fps ?m" using Cons.prems(1) by (simp add: after_call_fps)
  have s: "sorted (frames cs)" using Cons.prems(2) fr by (simp add: sorted_append)
  from after_call_time_data [of m c]
  have "sorted (time_data ?m)
        \<and> (\<forall>t \<in> set (time_data ?m). \<forall>x \<in> set (frames cs). t \<le> x / fps ?m)"
  proof
    assume e: "time_data ?m = time_data m"
    with Cons.prems(3,4) fr show ?thesis by (simp add: after_call_fps)
  next
    assume "\<exists>x. frames [c] = [x] \<and> time_data ?m = time_data m @ [x / fps m]"
    then obtain x where x: "frames [c] = [x]" "time_data ?m = time_data m @ [x / fps m]"
      by blast
    have le: "\<forall>y \<in> set (frames cs). x \<le> y"
      using Cons.prems(2) fr x(1) by (simp add: sorted_append)
    have a: "sorted (time_data ?m)"
      using Cons.prems(3,4) fr x by (simp add: sorted_append)
    have b: "\<forall>t \<in> set (time_data ?m). \<forall>y \<in> set (frames cs). t \<le> y / fps ?m"
      using Cons.prems(1,4) fr x le
      by (auto simp: after_call_fps divide_right_mono)
    from a b show ?thesis by simp
  qed
  with Cons.IH [of ?m] f s show ?case by simp
qed

text \<open>
  Claim C8, as amended. After construction and after every call of \<^verbatim>\<open>addPoint\<close> and
  \<^verbatim>\<open>finish\<close>, in any order and whether a call returned or raised, \<^verbatim>\<open>time_data\<close>, \<^verbatim>\<open>azim_data\<close>,
  \<^verbatim>\<open>elev_data\<close>, \<^verbatim>\<open>ra_data\<close>, \<^verbatim>\<open>dec_data\<close> and \<^verbatim>\<open>mag_data\<close> have the same length. The values of
  \<^verbatim>\<open>time_data\<close> are non-decreasing when the frame rate is positive and the frame numbers are
  passed in non-decreasing order; the class does not check either.
\<close>

theorem observation_lengths_and_order:
  "equal_lengths (foldl after_call (MeteorObservation_init jdt sid lat lon h f) cs)
   \<and> (0 < f \<and> sorted (frames cs)
      \<longrightarrow> sorted (time_data (foldl after_call (MeteorObservation_init jdt sid lat lon h f) cs)))"
proof (intro conjI impI)
  show "equal_lengths (foldl after_call (MeteorObservation_init jdt sid lat lon h f) cs)"
    by (rule foldl_after_call_equal_lengths)
       (simp add: equal_lengths_def MeteorObservation_init_def)
next
  assume "0 < f \<and> sorted (frames cs)"
  then show "sorted (time_data (foldl after_call (MeteorObservation_init jdt sid lat lon h f) cs))"
    by (intro foldl_after_call_sorted) (simp_all add: MeteorObservation_init_def)
qed

text \<open>The theorem on an observation at 25 frames per second with frames 1 and 2, then frozen.\<close>

lemma witness_calls_time_data: "time_data (foldl after_call (MeteorObservation_init 2458000 (IntId 1) 0 0 0 25)
       [AddPoint 1 0 0 0 0 None, AddPoint 2 0 0 0 0 (Some 3), Finish]) = [1 / 25, 2 / 25]"
  by (simp add: MeteorObservation_init_def addPoint_def finish_def)

lemma witness_calls_frames_sorted: "0 < (25::real) \<and> sorted (frames [AddPoint 1 0 0 0 0 None, AddPoint 2 0 0 0 0 (Some 3), Finish])"
  by simp

theorem observation_lengths_and_order_witness:
  "equal_lengths (foldl after_call (MeteorObservation_init 2458000 (IntId 1) 0 0 0 25)
       [AddPoint 1 0 0 0 0 None, AddPoint 2 0 0 0 0 (Some 3), Finish])
   \<and> sorted (time_data (foldl after_call (MeteorObservation_init 2458000 (IntId 1) 0 0 0 25)
       [AddPoint 1 0 0 0 0 None, AddPoint 2 0 0 0 0 (Some 3), Finish]))
   \<and> time_data (foldl after_call (MeteorObservation_init 2458000 (IntId 1) 0 0 0 25)
       [AddPoint 1 0 0 0 0 None, AddPoint 2 0 0 0 0 (Some 3), Finish]) = [1 / 25, 2 / 25]"
  using observation_lengths_and_order [of 2458000 "IntId 1" 0 0 0 25
      "[AddPoint 1 0 0 0 0 None, AddPoint 2 0 0 0 0 (Some 3), Finish]"] witness_calls_time_data witness_calls_frames_sorted
  by blast

text \<open>
  Claim C8 as stated fails: nothing orders the times. Frame 2 followed by frame 1 leaves
  \<^verbatim>\<open>time_data\<close> = [2/25, 1/25].
\<close>

theorem time_data_decreasing_counterexample:
  "\<not> sorted (time_data (foldl after_call (MeteorObservation_init 2458000 (IntId 1) 0 0 0 25)
       [AddPoint 2 0 0 0 0 None, AddPoint 1 0 0 0 0 None]))"
proof -
  have eq: "time_data (foldl after_call (MeteorObservation_init 2458000 (IntId 1) 0 0 0 25)
       [AddPoint 2 0 0 0 0 None, AddPoint 1 0 0 0 0 None]) = [2 / 25, 1 / 25]"
    by (simp add: MeteorObservation_init_def addPoint_def)
  show ?thesis unfolding eq by (simp del: sorted_wrt.simps add: sorted2)
qed

subsection \<open>The detection file parser\<close>

lemmas parser_eval =
  loadFTPDetectInfo_def after_loop_def parse_line_def header_line_def point_line_def
  read_mag_def float_item_def apply_time_offset_def bin_line_jd_def clean_line_def
  initial_state_def bind_def MeteorObservation_init_def addPoint_def finish_def Let_def

text \<open>
  Before the first separator line every line is ignored: a file without a separator line
  gives no record.
\<close>

lemma parse_line_before_first_separator:
  "\<not> contains ''-----'' (clean_line l) \<Longrightarrow>
   parse_line date2JD stations time_offsets initial_state l = Inr (Continue initial_state)"
  by (simp add: parse_line_def initial_state_def Let_def)

lemma parse_lines_no_separator:
  "list_all (\<lambda>l. \<not> contains ''-----'' (clean_line l)) ls \<Longrightarrow>
   parse_lines date2JD stations time_offsets initial_state ls = Inr initial_state"
  by (induction ls) (simp_all add: parse_line_before_first_separator)

lemma loadFTPDetectInfo_no_separator:
  "11 \<le> length f \<Longrightarrow> list_all (\<lambda>l. \<not> contains ''-----'' (clean_line l)) (drop 11 f) \<Longrightarrow>
   loadFTPDetectInfo date2JD f stations time_offsets = Inr []"
proof -
  assume len: "11 \<le> length f"
     and ns: "list_all (\<lambda>l. \<not> contains ''-----'' (clean_line l)) (drop 11 f)"
  have "parse_lines date2JD stations time_offsets initial_state (drop 11 f) = Inr initial_state"
    using ns by (rule parse_lines_no_separator)
  moreover have "after_loop initial_state = []"
    by (simp add: after_loop_def initial_state_def)
  ultimately show ?thesis using len by (simp add: loadFTPDetectInfo_def)
qed

text \<open>
  Claim C2. The claim asks that a file ending with a separator line yields no extra record
  for that separator. The code does otherwise: for a file with one block (separator, bin
  line, calibration line, header, one point), whatever \<^verbatim>\<open>date2JD\<close> returns, the parser returns
  the one observation when the file ends after the point line, and the same observation
  twice when a separator line follows: the separator appends it and leaves it in
  \<^verbatim>\<open>current_meteor\<close>, and the code after the loop appends it again.
\<close>

theorem loadFTPDetectInfo_final_separator_appends_again:
  "(let date2JD = (\<lambda>y mo d h mi s ms. Inr (jd y mo d h mi s ms));
        block = [''-------------------------------------------------------'',
                 ''FF_000001_20180614_012345_678_0001234.fits'',
                 ''CAL_000001.txt'',
                 ''0001 0001 0010 0025.00 000.0 000.0'',
                 ''100.0 0512.00 0384.00 123.45 +45.60 270.00 +30.00 000100 2.5''];
        m = \<lparr> jdt_ref = jd 2018 6 14 1 23 45 678, station_id = IntId 1, latitude = lat,
              longitude = lon, height = ht, fps = 25, time_data = [4],
              azim_data = [radians 270], elev_data = [radians 30],
              ra_data = [radians (12345 / 100)], dec_data = [radians (456 / 10)],
              mag_data = [Some (5 / 2)], abs_mag_data = [], arrays = True \<rparr>
    in loadFTPDetectInfo date2JD (replicate 11 h0 @ block) [IntId 1 \<mapsto> (lat, lon, ht)] None
         = Inr [m]
       \<and> loadFTPDetectInfo date2JD
           (replicate 11 h0 @ block @ [''-------------------------------------------------------''])
           [IntId 1 \<mapsto> (lat, lon, ht)] None
         = Inr [m, m])"
  by (simp add: parser_eval py_eval)

text \<open>
  Claim C3. The claim asks that a header with a station missing from the catalog returns
  exactly the records finalized before it, none of them twice. The code does otherwise: with
  station 1 in the catalog and station 99 not, the first block's observation, appended at
  the second separator, is still \<^verbatim>\<open>current_meteor\<close> at the \<^verbatim>\<open>break\<close> and is appended a second
  time after the loop. The lines after the failing header are not read.
\<close>

theorem loadFTPDetectInfo_unknown_station_appends_again:
  "loadFTPDetectInfo (\<lambda>y mo d h mi s ms. Inr (jd y mo d h mi s ms))
     (replicate 11 h0 @
      [''-------------------------------------------------------'',
       ''FF_000001_20180614_012345_678_0001234.fits'',
       ''CAL_000001.txt'',
       ''0001 0001 0010 0025.00 000.0 000.0'',
       ''100.0 0512.00 0384.00 123.45 +45.60 270.00 +30.00 000100 2.5'',
       ''-------------------------------------------------------'',
       ''FF_000099_20180614_012346_000_0001300.fits'',
       ''CAL_000099.txt'',
       ''0099 0001 0010 0025.00 000.0 000.0'',
       ''101.0 0512.00 0384.00 123.45 +45.60 270.00 +30.00 000100 2.5''])
     [IntId 1 \<mapsto> (lat, lon, ht)] None
   = (let m = \<lparr> jdt_ref = jd 2018 6 14 1 23 45 678, station_id = IntId 1, latitude = lat,
                longitude = lon, height = ht, fps = 25, time_data = [4],
                azim_data = [radians 270], elev_data = [radians 30],
                ra_data = [radians (12345 / 100)], dec_data = [radians (456 / 10)],
                mag_data = [Some (5 / 2)], abs_mag_data = [], arrays = True \<rparr>
      in Inr [m, m])"
  by (simp add: parser_eval py_eval)

text \<open>
  Claim C5. The claim asks that a station found in the time-offset mapping has its offset
  applied and parsing goes on. The code does otherwise for a numeric station: the station id
  of the header \<^verbatim>\<open>0001\<close> is coerced to the integer 1, the mapping holds the key 1, and the
  message formatted with \<^verbatim>\<open>{:s}\<close> raises ValueError, which leaves \<^verbatim>\<open>loadFTPDetectInfo\<close>.
\<close>

theorem loadFTPDetectInfo_int_station_offset_raises:
  "loadFTPDetectInfo (\<lambda>y mo d h mi s ms. Inr (jd y mo d h mi s ms))
     (replicate 11 h0 @
      [''-------------------------------------------------------'',
       ''FF_000001_20180614_012345_678_0001234.fits'',
       ''CAL_000001.txt'',
       ''0001 0001 0010 0025.00 000.0 000.0'',
       ''100.0 0512.00 0384.00 123.45 +45.60 270.00 +30.00 000100 2.5''])
     [IntId 1 \<mapsto> (lat, lon, ht)] (Some [IntId 1 \<mapsto> off])
   = Inl ValueError"
  by (simp add: parser_eval py_eval)

text \<open>
  Claim C6. The claim asks that a point line with an eighth field is read without failure.
  The code does otherwise: a point line with exactly eight fields passes the guard
  \<^verbatim>\<open>len(line) > 7\<close>, and \<^verbatim>\<open>line[8]\<close> raises IndexError, which leaves \<^verbatim>\<open>loadFTPDetectInfo\<close>.
\<close>

theorem loadFTPDetectInfo_eight_fields_raises:
  "loadFTPDetectInfo (\<lambda>y mo d h mi s ms. Inr (jd y mo d h mi s ms))
     (replicate 11 h0 @
      [''-------------------------------------------------------'',
       ''FF_000001_20180614_012345_678_0001234.fits'',
       ''CAL_000001.txt'',
       ''0001 0001 0010 0025.00 000.0 000.0'',
       ''100.0 0512.00 0384.00 123.45 +45.60 270.00 +30.00 000100''])
     [IntId 1 \<mapsto> (lat, lon, ht)] None
   = Inl IndexError"
  by (simp add: parser_eval py_eval)

text \<open>
  The magnitude of a point line in general: absent for up to seven fields, IndexError for
  exactly eight, and from the ninth field otherwise (\<^verbatim>\<open>inf\<close> for absent).
\<close>

lemma read_mag_cases:
  "(length toks \<le> 7 \<longrightarrow> read_mag toks = Inr None)
   \<and> (length toks = 8 \<longrightarrow> read_mag toks = Inl IndexError)
   \<and> (8 < length toks \<and> toks ! 8 = ''inf'' \<longrightarrow> read_mag toks = Inr None)
   \<and> (8 < length toks \<and> toks ! 8 \<noteq> ''inf'' \<and> py_float (toks ! 8) = Some x
        \<longrightarrow> read_mag toks = Inr (Some x))"
  by (simp add: read_mag_def item_def bind_def)

text \<open>
  The time offset in general: without a mapping and for a station that the mapping does not
  hold the epoch is unchanged; for a station kept as a string the offset is added in days;
  for a station coerced to an integer that the mapping holds the message raises.
\<close>

lemma apply_time_offset_cases:
  "apply_time_offset None sid jv = Inr jv
   \<and> (offs sid = None \<longrightarrow> apply_time_offset (Some offs) sid jv = Inr jv)
   \<and> (offs (StrId s) = Some off
        \<longrightarrow> apply_time_offset (Some offs) (StrId s) (Some jdt) = Inr (Some (jdt + off / 86400)))
   \<and> (offs (IntId n) = Some off
        \<longrightarrow> apply_time_offset (Some offs) (IntId n) jv = Inl ValueError)"
  by (simp add: apply_time_offset_def)

text \<open>
  Claim C4. A bin line of six segments and a bin line of five segments that hold the same
  date, time and millisecond segments at the positions of their layout (segments 2, 3, 4 and
  segments 1, 2, 3) give the same reference Julian date, the value of \<^verbatim>\<open>date2JD\<close> at the
  calendar fields read from these segments, or fail alike; read as the bin line of a block,
  the two lines leave the parser in the same state, so the rest of the file is parsed alike.
\<close>

theorem bin_line_layouts_agree:
  "split_on CHR ''_'' (clean_line r6) = [a, b, ff_date, ff_time, milliseconds, f]
   \<Longrightarrow> split_on CHR ''_'' (clean_line r5) = [a', ff_date, ff_time, milliseconds, e]
   \<Longrightarrow> bin_line_jd date2JD (clean_line r6) = bin_line_jd date2JD (clean_line r5)
       \<and> (ints_of [slice 0 4 ff_date, slice 4 6 ff_date, slice 6 8 ff_date,
                   slice 0 2 ff_time, slice 2 4 ff_time, slice 4 6 ff_time, milliseconds]
            = Inr [year, month, day, hour, minute, seconds, ms]
          \<longrightarrow> bin_line_jd date2JD (clean_line r5) = date2JD year month day hour minute seconds ms)
       \<and> (bin_name st \<and> \<not> contains ''-----'' (clean_line r6)
            \<and> \<not> contains ''-----'' (clean_line r5)
          \<longrightarrow> parse_line date2JD stations time_offsets st r6
                = parse_line date2JD stations time_offsets st r5
              \<and> parse_lines date2JD stations time_offsets st (r6 # rest)
                = parse_lines date2JD stations time_offsets st (r5 # rest))"
proof -
  assume s6: "split_on CHR ''_'' (clean_line r6) = [a, b, ff_date, ff_time, milliseconds, f]"
     and s5: "split_on CHR ''_'' (clean_line r5) = [a', ff_date, ff_time, milliseconds, e]"
  have jd: "bin_line_jd date2JD (clean_line r6) = bin_line_jd date2JD (clean_line r5)"
    by (simp add: bin_line_jd_def s6 s5 item_def bind_def)
  have n6: "clean_line r6 \<noteq> []" using s6 by (auto simp: split_on_def)
  have n5: "clean_line r5 \<noteq> []" using s5 by (auto simp: split_on_def)
  have val: "ints_of [slice 0 4 ff_date, slice 4 6 ff_date, slice 6 8 ff_date,
                   slice 0 2 ff_time, slice 2 4 ff_time, slice 4 6 ff_time, milliseconds]
            = Inr [year, month, day, hour, minute, seconds, ms]
          \<longrightarrow> bin_line_jd date2JD (clean_line r5) = date2JD year month day hour minute seconds ms"
    by (simp add: bin_line_jd_def s5 item_def bind_def)
  have step: "bin_name st \<and> \<not> contains ''-----'' (clean_line r6)
            \<and> \<not> contains ''-----'' (clean_line r5)
          \<longrightarrow> parse_line date2JD stations time_offsets st r6
                = parse_line date2JD stations time_offsets st r5"
    using jd n6 n5 by (simp add: parse_line_def)
  from jd val step show ?thesis by simp
qed

text \<open>The theorem at an old-layout and a new-layout name for 2018-06-14 01:23:45.678.\<close>

theorem bin_line_layouts_agree_witness:
  "bin_line_jd example_date2JD (clean_line ''FF_000001_20180614_012345_678_0001234.fits'')
     = example_date2JD 2018 6 14 1 23 45 678
   \<and> bin_line_jd example_date2JD (clean_line ''FF000001_20180614_012345_678_0001234.bin'')
     = example_date2JD 2018 6 14 1 23 45 678
   \<and> parse_line example_date2JD Map.empty None (initial_state\<lparr> bin_name := True \<rparr>)
       ''FF_000001_20180614_012345_678_0001234.fits''
     = parse_line example_date2JD Map.empty None (initial_state\<lparr> bin_name := True \<rparr>)
       ''FF000001_20180614_012345_678_0001234.bin''"
proof -
  have s6: "split_on CHR ''_'' (clean_line ''FF_000001_20180614_012345_678_0001234.fits'')
      = [''FF'', ''000001'', ''20180614'', ''012345'', ''678'', ''0001234.fits'']"
    by (simp add: clean_line_def split_on_def)
  have s5: "split_on CHR ''_'' (clean_line ''FF000001_20180614_012345_678_0001234.bin'')
      = [''FF000001'', ''20180614'', ''012345'', ''678'', ''0001234.bin'']"
    by (simp add: clean_line_def split_on_def)
  have i: "ints_of [slice 0 4 ''20180614'', slice 4 6 ''20180614'', slice 6 8 ''20180614'',
                   slice 0 2 ''012345'', slice 2 4 ''012345'', slice 4 6 ''012345'', ''678'']
            = Inr [2018, 6, 14, 1, 23, 45, 678]"
    by (simp add: py_eval)
  have c: "bin_name (initial_state\<lparr> bin_name := True \<rparr>)
      \<and> \<not> contains ''-----'' (clean_line ''FF_000001_20180614_012345_678_0001234.fits'')
      \<and> \<not> contains ''-----'' (clean_line ''FF000001_20180614_012345_678_0001234.bin'')"
    by (simp add: clean_line_def)
  from bin_line_layouts_agree [OF s6 s5, of example_date2JD 2018 6 14 1 23 45 678
      "initial_state\<lparr> bin_name := True \<rparr>" Map.empty None "[]"] i c
  show ?thesis by simp
qed

subsection \<open>Normalization of the observations\<close>












subsection \<open>The solver adapters\<close>

text \<open>
  Claim C9. The claim asks that a solver name that is neither \<^verbatim>\<open>original\<close> nor \<^verbatim>\<open>gural\<close> gives
  no result and lets no exception escape. \<^verbatim>\<open>solveTrajectoryPickle\<close> does otherwise: with the
  pickle loaded and the name \<^verbatim>\<open>montecarlo\<close>, it prints, then calls \<^verbatim>\<open>traj.run()\<close> on a local that
  was never bound, whatever the solver and the pickle are.
\<close>

theorem solveTrajectoryPickle_unknown_solver_raises:
  "solveTrajectoryPickle (Inr traj_p) init_original init_gural savePlots run False
     ''montecarlo'' = Inl UnboundLocalError"
  by (simp add: solveTrajectoryPickle_def bind_def)

text \<open>With an unknown solver name \<^verbatim>\<open>solveTrajectoryPickle\<close> never returns normally.\<close>

lemma solveTrajectoryPickle_unknown_solver_never_returns:
  "solver \<noteq> ''original'' \<Longrightarrow> solver \<noteq> ''gural'' \<Longrightarrow>
   \<exists>e. solveTrajectoryPickle loadPickle init_original init_gural savePlots run only_plot solver
         = Inl e"
  by (auto simp: solveTrajectoryPickle_def bind_def split: sum.splits)

text \<open>
  \<^verbatim>\<open>solveTrajectoryCAMS\<close> does what the claim says whenever the normalization returns: an
  unknown solver name gives \<^verbatim>\<open>None\<close>.
\<close>

lemma solveTrajectoryCAMS_unknown_solver:
  "solver \<noteq> ''original'' \<Longrightarrow> solver \<noteq> ''gural'' \<Longrightarrow>
   prepareObservations prec horiz j2000 observations = Inr r \<Longrightarrow>
   solveTrajectoryCAMS prec horiz j2000 run_original run_gural observations solver = Inr None"
  by (auto simp: solveTrajectoryCAMS_def split: option.splits)

end
